theory Spec2Isabelle
  imports Main "HOL-Library.Sublist"
begin

section \<open>The Go manager (src/src/configuration_manager_54.go)\<close>

text \<open>
  The packages \<open>configuration\<close>, \<open>validation\<close> and \<open>authentication\<close> hold the same Go code
  up to the text of their log lines; the model follows \<open>configuration_manager_54.go\<close>.

  What is left out, and why it may be: the logger (every \<open>m.logger.Printf\<close> only writes a
  line to the process's log writer and returns nothing the code reads) and the mutex
  \<open>mu\<close> (\<open>Process\<close>, \<open>Reset\<close> and \<open>Close\<close> hold the write lock for their whole body,
  \<open>GetStatus\<close> the read lock, so that calls on one manager run one after the other: a call
  is a function from the manager before it to the manager after it).
\<close>

datatype Status = StatusPending | StatusProcessing | StatusCompleted | StatusFailed

text \<open>A \<open>time.Duration\<close> is a number of nanoseconds.\<close>

definition Millisecond :: int where
  "Millisecond = 1000000"

definition Second :: int where
  "Second = 1000 * Millisecond"

record Config =
  Enabled :: bool
  Timeout :: int
  Retries :: int
  LogLevel :: string

definition DefaultConfig :: Config where
  "DefaultConfig = \<lparr>Enabled = True, Timeout = 30 * Second, Retries = 3, LogLevel = ''INFO''\<rparr>"

text \<open>
  A \<open>time.Time\<close> is modelled as the nanoseconds since the zero \<open>time.Time\<close>, so that the
  zero value of the field \<open>ProcessedAt\<close> is 0.
\<close>

record Result =
  Status :: string
  ProcessedAt :: int
  DataSize :: int
  ProcessingTime :: int
  Message :: string

text \<open>
  The struct \<open>Manager\<close>. The field \<open>execCalls\<close> is not in the source: it counts the entries
  into \<open>executeProcessing\<close>, as a call counter on a test double of the worker would, and
  no function reads it.
\<close>

record Manager =
  config :: Config
  status :: Status
  createdAt :: int
  execCalls :: nat

text \<open>
  The errors the package makes. \<open>ctx.Err()\<close> is \<open>context.Canceled\<close> or
  \<open>context.DeadlineExceeded\<close>; \<open>fmt.Errorf("...: %w", err)\<close> wraps \<open>err\<close>, and
  \<open>Error\<close> gives the message \<open>err.Error()\<close>.
\<close>

datatype ctx_err = Canceled | DeadlineExceeded

datatype error =
    DataNil
  | CtxErr ctx_err
  | ValidationFailed error
  | ProcessingFailed error

fun Error :: "error \<Rightarrow> string" where
  "Error DataNil = ''data cannot be nil''"
| "Error (CtxErr Canceled) = ''context canceled''"
| "Error (CtxErr DeadlineExceeded) = ''context deadline exceeded''"
| "Error (ValidationFailed err) = ''validation failed: '' @ Error err"
| "Error (ProcessingFailed err) = ''processing failed: '' @ Error err"

text \<open>
  The code looks at its \<open>context.Context\<close> in two \<open>select\<close> statements and nowhere else,
  so a context is modelled by what these two observe:
  \<^item> \<open>Done_first\<close>: the \<open>select\<close> of \<open>executeProcessing\<close> takes \<open><-ctx.Done()\<close>, that is, the
    context is done before the timer \<open>time.After(100 * time.Millisecond)\<close> fires (or both
    are ready and Go picks the context);
  \<^item> \<open>Done_on_send\<close>: the \<open>select\<close> of \<open>ProcessAsync\<close> takes \<open><-ctx.Done()\<close>, that is, the
    context is done when the result is about to be sent and Go picks that case (the send
    on the buffered channel is always ready);
  \<^item> \<open>Err\<close>: what \<open>ctx.Err()\<close> returns once the context is done.
  \<open>context.Background()\<close> is never done.
\<close>

record Context =
  Done_first :: bool
  Done_on_send :: bool
  Err :: ctx_err

definition Background :: Context where
  "Background = \<lparr>Done_first = False, Done_on_send = False, Err = Canceled\<rparr>"

text \<open>
  The three readings of the clock during one call of \<open>Process\<close>: \<open>time.Now()\<close> at its entry
  (\<open>start\<close>), \<open>time.Now()\<close> in \<open>executeProcessing\<close> after the timer, and the one inside
  \<open>time.Since(start)\<close>.
\<close>

record Clock =
  now_start :: int
  now_processed :: int
  now_end :: int

text \<open>The duration of the simulated work, \<open>time.After(100 * time.Millisecond)\<close>.\<close>

definition processing_delay :: int where
  "processing_delay = 100 * Millisecond"

text \<open>
  The payload \<open>data interface{}\<close> is \<open>None\<close> for \<open>nil\<close> and \<open>Some s\<close> for a value whose
  rendering by \<open>fmt.Sprintf("%v", data)\<close> is \<open>s\<close>: the code reads nothing else of it.
\<close>

definition NewManager :: "Config option \<Rightarrow> int \<Rightarrow> Manager" where
  "NewManager cfg now =
     \<lparr>config = (case cfg of None \<Rightarrow> DefaultConfig | Some c \<Rightarrow> c),
      status = StatusPending,
      createdAt = now,
      execCalls = 0\<rparr>"

definition Validate :: "string option \<Rightarrow> error option" where
  "Validate data = (if data = None then Some DataNil else None)"

definition Sprintf_v :: "string option \<Rightarrow> string" where
  "Sprintf_v data = (case data of None \<Rightarrow> ''<nil>'' | Some s \<Rightarrow> s)"

definition executeProcessing ::
  "Manager \<Rightarrow> Context \<Rightarrow> Clock \<Rightarrow> string option \<Rightarrow> Manager \<times> (error + Result)" where
  "executeProcessing m ctx clk data =
     (let m = m\<lparr>execCalls := Suc (execCalls m)\<rparr> in
      if Done_first ctx then (m, Inl (CtxErr (Err ctx)))
      else
        let dataStr = Sprintf_v data in
        (m, Inr \<lparr>Status = ''success'',
                 ProcessedAt = now_processed clk,
                 DataSize = int (length dataStr),
                 ProcessingTime = 0,
                 Message = ''Configuration processing completed successfully''\<rparr>))"

definition Process ::
  "Manager \<Rightarrow> Context \<Rightarrow> Clock \<Rightarrow> string option \<Rightarrow> Manager \<times> (error + Result)" where
  "Process m ctx clk data =
     (let start = now_start clk;
          m = m\<lparr>status := StatusProcessing\<rparr> in
      case Validate data of
        Some err \<Rightarrow> (m\<lparr>status := StatusFailed\<rparr>, Inl (ValidationFailed err))
      | None \<Rightarrow>
          (case executeProcessing m ctx clk data of
             (m, Inl err) \<Rightarrow> (m\<lparr>status := StatusFailed\<rparr>, Inl (ProcessingFailed err))
           | (m, Inr result) \<Rightarrow>
               (m\<lparr>status := StatusCompleted\<rparr>,
                Inr (result\<lparr>ProcessingTime := now_end clk - start\<rparr>))))"

text \<open>
  \<open>ProcessAsync\<close> returns a channel of \<open>*Result\<close>. Its goroutine runs \<open>Process\<close>, turns an
  error into a \<open>Result\<close> with \<open>Status: "error"\<close>, and either sends the result or, when it
  takes \<open><-ctx.Done()\<close>, returns without sending; the deferred \<open>close\<close> closes the channel in
  both cases. The second component is what a receive on the channel yields: \<open>Some r\<close> for
  the value sent, \<open>None\<close> for the \<open>nil\<close> that a closed, empty channel gives.
\<close>

definition ProcessAsync ::
  "Manager \<Rightarrow> Context \<Rightarrow> Clock \<Rightarrow> string option \<Rightarrow> Manager \<times> Result option" where
  "ProcessAsync m ctx clk data =
     (case Process m ctx clk data of
        (m, r) \<Rightarrow>
          (let result =
             (case r of
                Inl err \<Rightarrow> \<lparr>Status = ''error'', ProcessedAt = 0, DataSize = 0,
                            ProcessingTime = 0, Message = Error err\<rparr>
              | Inr result \<Rightarrow> result)
           in (m, if Done_on_send ctx then None else Some result)))"

definition GetStatus :: "Manager \<Rightarrow> Status" where
  "GetStatus m = status m"

definition Reset :: "Manager \<Rightarrow> Manager" where
  "Reset m = m\<lparr>status := StatusPending\<rparr>"

section \<open>The Java managers (src/unnamed/part_003, src/unnamed/part_005)\<close>

text \<open>
  \<open>MonitoringManager\<close> (part_003) and \<open>ConfigurationManager\<close> (part_005) are the same Java
  class up to its name and log text. The enum \<open>Status\<close> and the class \<open>Config\<close> are
  written once for both; the C++ manager of part_004 declares the same enum and the same
  four configuration fields, and uses them too.
\<close>

datatype Status_j = PENDING | PROCESSING | COMPLETED | FAILED

record Config_j =
  enabled :: bool
  timeout :: int
  retries :: int
  logLevel :: string

text \<open>\<open>new Config()\<close>: the field initialisers of the class.\<close>

definition new_Config :: Config_j where
  "new_Config = \<lparr>enabled = True, timeout = 30, retries = 3, logLevel = ''INFO''\<rparr>"

text \<open>
  What Java code throws here. \<open>Exception_thrown\<close> is any other \<open>Exception\<close> and
  \<open>Error_thrown\<close> an \<open>Error\<close> (a \<open>StackOverflowError\<close>, say: a \<open>Throwable\<close> that is not an
  \<open>Exception\<close>), each given by its detail message. \<open>getMessage\<close> may be \<open>null\<close>, here
  \<open>None\<close>, which string concatenation renders as \<open>"null"\<close>.
\<close>

datatype throwable =
    IllegalArgumentException string
  | NullPointerException "string option"
  | RuntimeException string throwable
  | Exception_thrown "string option"
  | Error_thrown "string option"

fun getMessage :: "throwable \<Rightarrow> string option" where
  "getMessage (IllegalArgumentException msg) = Some msg"
| "getMessage (NullPointerException msg) = msg"
| "getMessage (RuntimeException msg cause) = Some msg"
| "getMessage (Exception_thrown msg) = msg"
| "getMessage (Error_thrown msg) = msg"

fun is_Exception :: "throwable \<Rightarrow> bool" where
  "is_Exception (Error_thrown msg) = False"
| "is_Exception t = True"

definition string_concat :: "string \<Rightarrow> string option \<Rightarrow> string" where
  "string_concat s msg = s @ (case msg of None \<Rightarrow> ''null'' | Some t \<Rightarrow> t)"

text \<open>
  \<open>setupLogging\<close> calls \<open>Level.parse(config.getLogLevel())\<close> of \<open>java.util.logging\<close>, which
  accepts the nine level names below, and beyond them the strings the JDK reads as an
  integer or as a localized level name; it throws \<open>IllegalArgumentException\<close> on every
  other string. What the JDK accepts beyond the names is the parameter \<open>jdk\<close>.
\<close>

definition level_names :: "string list" where
  "level_names =
     [''OFF'', ''SEVERE'', ''WARNING'', ''INFO'', ''CONFIG'', ''FINE'', ''FINER'', ''FINEST'', ''ALL'']"

definition Level_parse :: "(string \<Rightarrow> bool) \<Rightarrow> string \<Rightarrow> throwable option" where
  "Level_parse jdk name =
     (if name \<in> set level_names \<or> jdk name then None
      else Some (IllegalArgumentException (''Bad level \"'' @ name @ ''\"'')))"

text \<open>
  The result map of \<open>executeProcessing\<close>, with its four keys; the JavaScript manager
  resolves to an object with the same four keys.
\<close>

record ProcessingResult =
  status_r :: string
  processedAt :: string
  dataSize :: int
  processingTime :: int

subsection \<open>MonitoringManager\<close>

record MonitoringManager =
  config_mm :: Config_j
  status_mm :: Status_j
  createdAt_mm :: string

text \<open>
  The payload \<open>Object data\<close> is \<open>None\<close> for \<open>null\<close>, and otherwise \<open>Some\<close> of what
  \<open>data.toString()\<close> does, which is all the code asks of it: it returns the text \<open>s\<close>
  (\<open>Returns s\<close>), it returns \<open>null\<close> (\<open>Returns_null msg\<close>, where \<open>msg\<close> is the detail message
  the JVM gives the \<open>NullPointerException\<close> that \<open>.length()\<close> then raises), or it throws
  (\<open>Throws t\<close>). \<open>now\<close> is the text of \<open>LocalDateTime.now()\<close>.
  The private \<open>executeProcessing\<close> is reached only with a payload that \<open>validate\<close> has
  accepted, hence not \<open>null\<close>: the model hands it what is under the \<open>Some\<close>.
\<close>

datatype toString_result = Returns string | Returns_null "string option" | Throws throwable

definition MonitoringManager_new ::
  "(string \<Rightarrow> bool) \<Rightarrow> Config_j option \<Rightarrow> string \<Rightarrow> throwable + MonitoringManager" where
  "MonitoringManager_new jdk cfg now =
     (let this = \<lparr>config_mm = (case cfg of Some c \<Rightarrow> c | None \<Rightarrow> new_Config),
                  status_mm = PENDING,
                  createdAt_mm = now\<rparr> in
      case Level_parse jdk (logLevel (config_mm this)) of
        Some e \<Rightarrow> Inl e
      | None \<Rightarrow> Inr this)"

definition MonitoringManager_validate :: "toString_result option \<Rightarrow> bool" where
  "MonitoringManager_validate data = (if data = None then False else True)"

definition MonitoringManager_executeProcessing ::
  "string \<Rightarrow> toString_result \<Rightarrow> throwable + ProcessingResult" where
  "MonitoringManager_executeProcessing now data =
     (case data of
        Returns s \<Rightarrow>
          Inr \<lparr>status_r = ''success'', processedAt = now, dataSize = int (length s),
               processingTime = 100\<rparr>
      | Returns_null msg \<Rightarrow> Inl (NullPointerException msg)
      | Throws t \<Rightarrow> Inl t)"

text \<open>
  \<open>process\<close>: the body of the \<open>try\<close>, then \<open>catch (Exception e)\<close>, which an \<open>Error\<close> passes
  by, leaving the status as the first line of the \<open>try\<close> set it.
\<close>

definition MonitoringManager_process ::
  "MonitoringManager \<Rightarrow> string \<Rightarrow> toString_result option \<Rightarrow>
     MonitoringManager \<times> (throwable + ProcessingResult)" where
  "MonitoringManager_process this now data =
     (let this = this\<lparr>status_mm := PROCESSING\<rparr>;
          body =
            (case data of
               None \<Rightarrow> Inl (IllegalArgumentException ''Data validation failed'')
             | Some obj \<Rightarrow>
                 if \<not> MonitoringManager_validate data
                 then Inl (IllegalArgumentException ''Data validation failed'')
                 else MonitoringManager_executeProcessing now obj)
      in case body of
           Inr result \<Rightarrow> (this\<lparr>status_mm := COMPLETED\<rparr>, Inr result)
         | Inl e \<Rightarrow>
             if is_Exception e
             then (this\<lparr>status_mm := FAILED\<rparr>,
                   Inl (RuntimeException (string_concat ''Processing failed: '' (getMessage e)) e))
             else (this, Inl e))"

definition MonitoringManager_getStatus :: "MonitoringManager \<Rightarrow> Status_j" where
  "MonitoringManager_getStatus this = status_mm this"

definition MonitoringManager_reset :: "MonitoringManager \<Rightarrow> MonitoringManager" where
  "MonitoringManager_reset this = this\<lparr>status_mm := PENDING\<rparr>"

subsection \<open>ConfigurationManager (Java)\<close>

record ConfigurationManager =
  config_cm :: Config_j
  status_cm :: Status_j
  createdAt_cm :: string

definition ConfigurationManager_new ::
  "(string \<Rightarrow> bool) \<Rightarrow> Config_j option \<Rightarrow> string \<Rightarrow> throwable + ConfigurationManager" where
  "ConfigurationManager_new jdk cfg now =
     (let this = \<lparr>config_cm = (case cfg of Some c \<Rightarrow> c | None \<Rightarrow> new_Config),
                  status_cm = PENDING,
                  createdAt_cm = now\<rparr> in
      case Level_parse jdk (logLevel (config_cm this)) of
        Some e \<Rightarrow> Inl e
      | None \<Rightarrow> Inr this)"

definition ConfigurationManager_reset :: "ConfigurationManager \<Rightarrow> ConfigurationManager" where
  "ConfigurationManager_reset this = this\<lparr>status_cm := PENDING\<rparr>"

section \<open>The JavaScript manager (src/src/api_manager_188.js)\<close>

definition API_STATUS_PENDING :: string where
  "API_STATUS_PENDING = ''pending''"

definition API_STATUS_PROCESSING :: string where
  "API_STATUS_PROCESSING = ''processing''"

definition API_STATUS_COMPLETED :: string where
  "API_STATUS_COMPLETED = ''completed''"

definition API_STATUS_FAILED :: string where
  "API_STATUS_FAILED = ''failed''"

record ApiManager =
  config_js :: Config_j
  status_js :: string

text \<open>
  The payload: \<open>null\<close>, \<open>undefined\<close>, or another value, given by what
  \<open>JSON.stringify(data)\<close> makes of it: \<open>Some j\<close> when it returns the text \<open>j\<close>, \<open>None\<close> when
  it returns \<open>undefined\<close> (a function, a symbol) or throws (a cycle, a BigInt).
\<close>

datatype js_data = JsNull | JsUndefined | JsValue "string option"

text \<open>What JavaScript code throws here: an \<open>ApiError\<close> object or an \<open>Error\<close> with a message.\<close>

record ApiError =
  error_ae :: string
  detail_ae :: "string option"
  status_ae :: int

datatype js_thrown = Thrown_ApiError ApiError | Thrown_Error string

text \<open>A promise is resolved, rejected, or stays pending for ever.\<close>

datatype 'a promise = Resolved 'a | Rejected js_thrown | Pending

text \<open>
  The constructor spreads the keys of its argument over the four defaults. A configuration
  argument is modelled with all four keys, so that it replaces every default; \<open>None\<close> is
  the call with no argument, as in \<open>createApiManager()\<close>.
\<close>

definition ApiManager_new :: "Config_j option \<Rightarrow> ApiManager" where
  "ApiManager_new cfg =
     \<lparr>config_js =
        (case cfg of
           None \<Rightarrow> \<lparr>enabled = True, timeout = 30000, retries = 3, logLevel = ''info''\<rparr>
         | Some c \<Rightarrow> c),
      status_js = API_STATUS_PENDING\<rparr>"

definition ApiManager_validate :: "js_data \<Rightarrow> bool" where
  "ApiManager_validate data = (if data = JsNull \<or> data = JsUndefined then False else True)"

definition JSON_stringify :: "js_data \<Rightarrow> string option" where
  "JSON_stringify data =
     (case data of JsNull \<Rightarrow> Some ''null'' | JsUndefined \<Rightarrow> None | JsValue j \<Rightarrow> j)"

text \<open>
  \<open>executeProcessing\<close> builds the result object inside the \<open>setTimeout\<close> callback, before it
  calls \<open>resolve\<close>. When \<open>JSON.stringify(data)\<close> is \<open>undefined\<close> or throws, the callback
  throws outside the promise executor: \<open>resolve\<close> is never called and the promise stays
  pending.
\<close>

definition ApiManager_executeProcessing :: "string \<Rightarrow> js_data \<Rightarrow> ProcessingResult promise" where
  "ApiManager_executeProcessing now data =
     (case JSON_stringify data of
        None \<Rightarrow> Pending
      | Some j \<Rightarrow>
          Resolved \<lparr>status_r = ''success'', processedAt = now, dataSize = int (length j),
                    processingTime = 100\<rparr>)"

definition ApiManager_process ::
  "ApiManager \<Rightarrow> string \<Rightarrow> js_data \<Rightarrow> ApiManager \<times> ProcessingResult promise" where
  "ApiManager_process this now data =
     (let this = this\<lparr>status_js := API_STATUS_PROCESSING\<rparr> in
      if \<not> ApiManager_validate data
      then (this\<lparr>status_js := API_STATUS_FAILED\<rparr>,
            Rejected (Thrown_Error ''Data validation failed''))
      else
        (case ApiManager_executeProcessing now data of
           Resolved result \<Rightarrow> (this\<lparr>status_js := API_STATUS_COMPLETED\<rparr>, Resolved result)
         | Rejected e \<Rightarrow> (this\<lparr>status_js := API_STATUS_FAILED\<rparr>, Rejected e)
         | Pending \<Rightarrow> (this, Pending)))"

definition ApiManager_reset :: "ApiManager \<Rightarrow> ApiManager" where
  "ApiManager_reset this = this\<lparr>status_js := API_STATUS_PENDING\<rparr>"

section \<open>The C++ manager (src/unnamed/part_004)\<close>

text \<open>
  \<open>std::to_string\<close> of a \<open>size_t\<close>: its decimal digits.
\<close>

fun to_string :: "nat \<Rightarrow> string" where
  "to_string n =
     (if n < 10 then [char_of (48 + n)]
      else to_string (n div 10) @ [char_of (48 + n mod 10)])"

record ConfigurationManager_cpp =
  config_ :: Config_j
  status_ :: Status_j
  createdAt_ :: string

datatype cpp_exception = invalid_argument string

text \<open>
  The result is a \<open>std::unordered_map<std::string, std::string>\<close>; \<open>ts\<close> is the text
  \<open>getCurrentTimestamp()\<close> returns.
\<close>

definition ConfigurationManager_cpp_validate :: "string \<Rightarrow> bool" where
  "ConfigurationManager_cpp_validate data = (if data = [] then False else True)"

definition ConfigurationManager_cpp_executeProcessing ::
  "string \<Rightarrow> string \<Rightarrow> (string \<rightharpoonup> string)" where
  "ConfigurationManager_cpp_executeProcessing ts data =
     (let result = Map.empty;
          result = result(''status'' \<mapsto> ''success'');
          result = result(''processedAt'' \<mapsto> ts);
          result = result(''dataSize'' \<mapsto> to_string (length data));
          result = result(''processingTime'' \<mapsto> ''100'')
      in result)"

definition ConfigurationManager_cpp_process ::
  "ConfigurationManager_cpp \<Rightarrow> string \<Rightarrow> string \<Rightarrow>
     ConfigurationManager_cpp \<times> (cpp_exception + (string \<rightharpoonup> string))" where
  "ConfigurationManager_cpp_process this ts data =
     (let this = this\<lparr>status_ := PROCESSING\<rparr> in
      if \<not> ConfigurationManager_cpp_validate data
      then (this\<lparr>status_ := FAILED\<rparr>, Inl (invalid_argument ''Data validation failed''))
      else
        (let result = ConfigurationManager_cpp_executeProcessing ts data
         in (this\<lparr>status_ := COMPLETED\<rparr>, Inr result)))"

text \<open>
  \<open>processAsync\<close> returns the \<open>std::future\<close> of \<open>std::async\<close> running \<open>process\<close>; the second
  component is what \<open>get()\<close> on the future gives: the value, or the exception rethrown.
\<close>

definition ConfigurationManager_cpp_processAsync ::
  "ConfigurationManager_cpp \<Rightarrow> string \<Rightarrow> string \<Rightarrow>
     ConfigurationManager_cpp \<times> (cpp_exception + (string \<rightharpoonup> string))" where
  "ConfigurationManager_cpp_processAsync this ts data =
     ConfigurationManager_cpp_process this ts data"

section \<open>The poll loop of the front end (src/unnamed/part_008)\<close>


definition MAX_POLL_ATTEMPTS :: int where
  "MAX_POLL_ATTEMPTS = 60"

text \<open>
  \<open>ReviewResponse\<close>; its \<open>status\<close> is the string of the JSON the server sent. The type
  \<open>'cv\<close> stands for \<open>CVReview\<close>, which the loop does not look into.
\<close>

record 'cv ReviewResponse =
  review_id :: string
  status_rr :: string
  review :: "'cv option"
  error_message :: "string option"
  created_at :: string

text \<open>
  The loop calls \<open>this.getReview(reviewId)\<close> once per iteration and adds one to \<open>attempts\<close>
  in every iteration that neither returns nor throws, so the call number \<open>k\<close> (from 0) is
  made when \<open>attempts\<close> is \<open>k\<close>. The server and the network are given by \<open>getReview\<close>:
  \<open>getReview reviewId k\<close> is what call number \<open>k\<close> comes back with, \<open>Inr\<close> the review it
  resolves to or \<open>Inl\<close> what it throws (the \<open>ApiError\<close> of \<open>handleResponse\<close> for a response
  that is not ok, such as a 404, or the error of a failed \<open>fetch\<close>).
  \<open>onProgress\<close> is the optional callback: \<open>None\<close> when it is absent, and otherwise a
  function from the status to what the callback throws, \<open>None\<close> when it returns.

  The result is the outcome together with the value of \<open>attempts\<close> at the end, which is
  the number of times the loop has waited \<open>POLL_INTERVAL\<close>.
  \<open>is_terminal\<close> is the test \<open>review.status === 'completed' || review.status === 'failed'\<close>.
\<close>

definition is_terminal :: "string \<Rightarrow> bool" where
  "is_terminal st = (st = ''completed'' \<or> st = ''failed'')"

function pollReview_loop ::
  "(string \<Rightarrow> int \<Rightarrow> js_thrown + 'cv ReviewResponse) \<Rightarrow> string \<Rightarrow>
   (string \<Rightarrow> js_thrown option) option \<Rightarrow> int \<Rightarrow> int \<Rightarrow>
   (js_thrown + 'cv ReviewResponse) \<times> int" where
  "pollReview_loop getReview reviewId onProgress maxAttempts attempts =
     (if attempts < maxAttempts then
        (case
           (case getReview reviewId attempts of
              Inl e \<Rightarrow> Inl e
            | Inr rv \<Rightarrow>
                (case (case onProgress of None \<Rightarrow> None | Some f \<Rightarrow> f (status_rr rv)) of
                   Some e \<Rightarrow> Inl e
                 | None \<Rightarrow> Inr rv))
         of
           Inr rv \<Rightarrow>
             if is_terminal (status_rr rv)
             then (Inr rv, attempts)
             else pollReview_loop getReview reviewId onProgress maxAttempts (attempts + 1)
         | Inl e \<Rightarrow>
             if attempts \<ge> maxAttempts - 1
             then (Inl e, attempts)
             else pollReview_loop getReview reviewId onProgress maxAttempts (attempts + 1))
      else (Inl (Thrown_Error ''Review processing timeout''), attempts))"
  by pat_completeness auto
termination
  by (relation "measure (\<lambda>(g, r, p, maxAttempts, attempts). nat (maxAttempts - attempts))") auto

declare pollReview_loop.simps [simp del]

definition pollReview ::
  "(string \<Rightarrow> int \<Rightarrow> js_thrown + 'cv ReviewResponse) \<Rightarrow> string \<Rightarrow>
   (string \<Rightarrow> js_thrown option) option \<Rightarrow> (js_thrown + 'cv ReviewResponse) \<times> int" where
  "pollReview getReview reviewId onProgress =
     pollReview_loop getReview reviewId onProgress MAX_POLL_ATTEMPTS 0"


record ErrorData =
  error_ed :: "string option"
  detail_ed :: "string option"

record 'cv Response =
  ok :: bool
  status_resp :: int
  statusText :: string
  json_T :: "js_thrown + 'cv ReviewResponse"
  json_errorData :: "ErrorData option"




section \<open>What each call computes\<close>

text \<open>
  The outcome of \<open>Process\<close> in each of its three cases, and the fact that it never reads
  the configuration.
\<close>

lemma Process_nil:
  "Process m ctx clk None =
     (m\<lparr>status := StatusFailed\<rparr>, Inl (ValidationFailed DataNil))"
  by (simp add: Process_def Validate_def)

lemma Process_done:
  "Done_first ctx \<Longrightarrow>
   Process m ctx clk (Some s) =
     (m\<lparr>status := StatusFailed, execCalls := Suc (execCalls m)\<rparr>,
      Inl (ProcessingFailed (CtxErr (Err ctx))))"
  by (simp add: Process_def Validate_def executeProcessing_def)

lemma Process_success:
  "\<not> Done_first ctx \<Longrightarrow>
   Process m ctx clk (Some s) =
     (m\<lparr>status := StatusCompleted, execCalls := Suc (execCalls m)\<rparr>,
      Inr \<lparr>Status = ''success'',
           ProcessedAt = now_processed clk,
           DataSize = int (length s),
           ProcessingTime = now_end clk - now_start clk,
           Message = ''Configuration processing completed successfully''\<rparr>)"
  by (simp add: Process_def Validate_def executeProcessing_def Sprintf_v_def)

lemma Process_config:
  "Process (m\<lparr>config := c\<rparr>) ctx clk data =
     (fst (Process m ctx clk data)\<lparr>config := c\<rparr>, snd (Process m ctx clk data))"
  by (cases data; cases "Done_first ctx") (simp_all add: Process_nil Process_done Process_success)

text \<open>
  The Java and JavaScript \<open>process\<close> on a payload that is absent and on one that is
  present.
\<close>

lemma MonitoringManager_process_null:
  "MonitoringManager_process this now None =
     (this\<lparr>status_mm := FAILED\<rparr>,
      Inl (RuntimeException ''Processing failed: Data validation failed''
             (IllegalArgumentException ''Data validation failed'')))"
  by (simp add: MonitoringManager_process_def string_concat_def)

lemma MonitoringManager_process_value:
  "MonitoringManager_process this now (Some (Returns s)) =
     (this\<lparr>status_mm := COMPLETED\<rparr>,
      Inr \<lparr>status_r = ''success'', processedAt = now, dataSize = int (length s),
           processingTime = 100\<rparr>)"
  by (simp add: MonitoringManager_process_def MonitoringManager_validate_def
      MonitoringManager_executeProcessing_def)

lemma MonitoringManager_process_toString_null:
  "MonitoringManager_process this now (Some (Returns_null msg)) =
     (this\<lparr>status_mm := FAILED\<rparr>,
      Inl (RuntimeException (string_concat ''Processing failed: '' msg)
             (NullPointerException msg)))"
  by (simp add: MonitoringManager_process_def MonitoringManager_validate_def
      MonitoringManager_executeProcessing_def)

lemma MonitoringManager_process_toString_throws:
  "MonitoringManager_process this now (Some (Throws t)) =
     (if is_Exception t
      then (this\<lparr>status_mm := FAILED\<rparr>,
            Inl (RuntimeException (string_concat ''Processing failed: '' (getMessage t)) t))
      else (this\<lparr>status_mm := PROCESSING\<rparr>, Inl t))"
  by (simp add: MonitoringManager_process_def MonitoringManager_validate_def
      MonitoringManager_executeProcessing_def)

lemma ApiManager_process_value:
  "ApiManager_process this now (JsValue (Some j)) =
     (this\<lparr>status_js := ''completed''\<rparr>,
      Resolved \<lparr>status_r = ''success'', processedAt = now, dataSize = int (length j),
                processingTime = 100\<rparr>)"
  by (simp add: ApiManager_process_def ApiManager_validate_def ApiManager_executeProcessing_def
      JSON_stringify_def API_STATUS_PROCESSING_def API_STATUS_COMPLETED_def)







lemma poll_retry:
  assumes "attempts < maxAttempts - 1" and "getReview reviewId attempts = Inl e"
  shows "pollReview_loop getReview reviewId onProgress maxAttempts attempts =
         pollReview_loop getReview reviewId onProgress maxAttempts (attempts + 1)"
  using assms by (subst pollReview_loop.simps) simp

lemma poll_rethrow:
  assumes "attempts < maxAttempts" and "attempts \<ge> maxAttempts - 1"
    and "getReview reviewId attempts = Inl e"
  shows "pollReview_loop getReview reviewId onProgress maxAttempts attempts = (Inl e, attempts)"
  using assms by (subst pollReview_loop.simps) simp


section \<open>The status state machine\<close>

text \<open>
  Claim C1 as stated does not hold of \<open>MonitoringManager\<close>. A new manager that has
  processed a payload is \<open>COMPLETED\<close>; a second \<open>process\<close>, on \<open>null\<close>, then leaves it
  \<open>FAILED\<close>, with no reset in between. And \<open>reset\<close> on a manager whose status is
  \<open>PROCESSING\<close> (the field is \<open>volatile\<close>, and \<open>processAsync\<close> runs \<open>process\<close> on another
  thread) gives \<open>PENDING\<close>.
\<close>

theorem status_moves_counterexample:
  "MonitoringManager_new (\<lambda>name. False) None ''2025-07-04T11:23:06'' =
     Inr \<lparr>config_mm = new_Config, status_mm = PENDING, createdAt_mm = ''2025-07-04T11:23:06''\<rparr> \<and>
   status_mm (fst (MonitoringManager_process
      \<lparr>config_mm = new_Config, status_mm = PENDING, createdAt_mm = ''2025-07-04T11:23:06''\<rparr>
      ''2025-07-04T11:23:07'' (Some (Returns ''sample_data'')))) = COMPLETED \<and>
   status_mm (fst (MonitoringManager_process
      (fst (MonitoringManager_process
         \<lparr>config_mm = new_Config, status_mm = PENDING, createdAt_mm = ''2025-07-04T11:23:06''\<rparr>
         ''2025-07-04T11:23:07'' (Some (Returns ''sample_data''))))
      ''2025-07-04T11:23:08'' None)) = FAILED \<and>
   status_mm (MonitoringManager_reset
      \<lparr>config_mm = new_Config, status_mm = PROCESSING, createdAt_mm = ''2025-07-04T11:23:06''\<rparr>)
     = PENDING"
  by (simp add: MonitoringManager_process_null MonitoringManager_process_value
      MonitoringManager_reset_def MonitoringManager_new_def new_Config_def Level_parse_def
      level_names_def)

text \<open>
  Claim C1, amended. \<open>process\<close> writes \<open>PROCESSING\<close> before it reads anything, so that its
  outcome is the same from every starting status, and the status it leaves depends on the
  payload alone: \<open>COMPLETED\<close> when the payload is not \<open>null\<close> and its \<open>toString()\<close> returns
  a string; \<open>FAILED\<close> when the payload is \<open>null\<close>, or its \<open>toString()\<close> returns \<open>null\<close> or
  throws an \<open>Exception\<close>; and \<open>PROCESSING\<close> when its \<open>toString()\<close> throws an \<open>Error\<close>, which
  the \<open>catch\<close> does not hold. \<open>reset\<close> sets the status to \<open>PENDING\<close> whatever it was before,
  \<open>PROCESSING\<close> included. Neither looks at the current status.
\<close>

theorem status_moves_unguarded:
  "status_mm (fst (MonitoringManager_process this now data)) =
     (case data of
        None \<Rightarrow> FAILED
      | Some (Returns str) \<Rightarrow> COMPLETED
      | Some (Returns_null msg) \<Rightarrow> FAILED
      | Some (Throws t) \<Rightarrow> if is_Exception t then FAILED else PROCESSING) \<and>
   MonitoringManager_process (this\<lparr>status_mm := s\<rparr>) now data =
     MonitoringManager_process this now data \<and>
   MonitoringManager_reset this = this\<lparr>status_mm := PENDING\<rparr> \<and>
   MonitoringManager_getStatus (MonitoringManager_reset this) = PENDING"
proof -
  have final: "status_mm (fst (MonitoringManager_process this now data)) =
     (case data of
        None \<Rightarrow> FAILED
      | Some (Returns str) \<Rightarrow> COMPLETED
      | Some (Returns_null msg) \<Rightarrow> FAILED
      | Some (Throws t) \<Rightarrow> if is_Exception t then FAILED else PROCESSING)"
  proof (cases data)
    case None
    then show ?thesis by (simp add: MonitoringManager_process_null)
  next
    case (Some obj)
    then show ?thesis
      by (cases obj)
        (simp_all add: MonitoringManager_process_value MonitoringManager_process_toString_null
          MonitoringManager_process_toString_throws)
  qed
  have same: "MonitoringManager_process (this\<lparr>status_mm := s\<rparr>) now data =
     MonitoringManager_process this now data"
    by (simp add: MonitoringManager_process_def)
  show ?thesis
    using final same
    by (simp add: MonitoringManager_reset_def MonitoringManager_getStatus_def)
qed

text \<open>
  Claim C2 as stated does not hold of \<open>ApiManager\<close>: \<open>process\<close> called on a manager whose
  status is already \<open>'processing'\<close> (as it is while a first call waits at its \<open>await\<close>)
  resolves to a result, not to an error, and the status becomes \<open>'completed'\<close>.
\<close>

theorem already_running_counterexample:
  "ApiManager_process
     (ApiManager_new None\<lparr>status_js := API_STATUS_PROCESSING\<rparr>)
     ''2025-07-04T14:04:26.600Z'' (JsValue (Some ''\"sample_data\"'')) =
   (\<lparr>config_js = \<lparr>enabled = True, timeout = 30000, retries = 3, logLevel = ''info''\<rparr>,
     status_js = ''completed''\<rparr>,
    Resolved \<lparr>status_r = ''success'', processedAt = ''2025-07-04T14:04:26.600Z'',
              dataSize = 13, processingTime = 100\<rparr>)"
  by (simp add: ApiManager_process_value ApiManager_new_def)

text \<open>
  Claim C2, amended. There is no "already running" error. \<open>ApiManager.process\<close> called
  with a serialisable payload on a manager whose status is \<open>'processing'\<close> runs the work
  again and resolves to its result, with status \<open>'completed'\<close>. In Go the mutex makes two
  overlapping calls of \<open>Process\<close> run one after the other; when neither context is done
  before its timer, both return a result and no error, and \<open>executeProcessing\<close> has run
  twice.
\<close>

theorem second_submission_runs_again:
  "(status_js this = API_STATUS_PROCESSING \<longrightarrow>
      ApiManager_process this now (JsValue (Some j)) =
        (this\<lparr>status_js := API_STATUS_COMPLETED\<rparr>,
         Resolved \<lparr>status_r = ''success'', processedAt = now, dataSize = int (length j),
                   processingTime = 100\<rparr>)) \<and>
   (\<not> Done_first ctx \<and> \<not> Done_first ctx' \<longrightarrow>
      Process m ctx clk (Some s) =
        (m\<lparr>status := StatusCompleted, execCalls := execCalls m + 1\<rparr>,
         Inr \<lparr>Status = ''success'', ProcessedAt = now_processed clk,
              DataSize = int (length s), ProcessingTime = now_end clk - now_start clk,
              Message = ''Configuration processing completed successfully''\<rparr>) \<and>
      Process (fst (Process m ctx clk (Some s))) ctx' clk' (Some s') =
        (m\<lparr>status := StatusCompleted, execCalls := execCalls m + 2\<rparr>,
         Inr \<lparr>Status = ''success'', ProcessedAt = now_processed clk',
              DataSize = int (length s'), ProcessingTime = now_end clk' - now_start clk',
              Message = ''Configuration processing completed successfully''\<rparr>))"
  by (simp add: ApiManager_process_value API_STATUS_COMPLETED_def Process_success)

theorem second_submission_runs_again_witness:
  "status_js (ApiManager_new None\<lparr>status_js := ''processing''\<rparr>) = API_STATUS_PROCESSING \<and>
   ApiManager_process (ApiManager_new None\<lparr>status_js := ''processing''\<rparr>) ''t''
       (JsValue (Some ''{}'')) =
     (ApiManager_new None\<lparr>status_js := ''completed''\<rparr>,
      Resolved \<lparr>status_r = ''success'', processedAt = ''t'', dataSize = 2,
                processingTime = 100\<rparr>) \<and>
   \<not> Done_first Background \<and>
   Process (fst (Process (NewManager None 0) Background
                   \<lparr>now_start = 0, now_processed = 1, now_end = 2\<rparr> (Some ''a'')))
       Background \<lparr>now_start = 3, now_processed = 4, now_end = 5\<rparr> (Some ''bc'') =
     (\<lparr>config = DefaultConfig, status = StatusCompleted, createdAt = 0, execCalls = 2\<rparr>,
      Inr \<lparr>Status = ''success'', ProcessedAt = 4, DataSize = 2, ProcessingTime = 2,
           Message = ''Configuration processing completed successfully''\<rparr>)"
proof -
  have p: "status_js (ApiManager_new None\<lparr>status_js := ''processing''\<rparr>) = API_STATUS_PROCESSING"
    by (simp add: API_STATUS_PROCESSING_def)
  have b: "\<not> Done_first Background \<and> \<not> Done_first Background"
    by (simp add: Background_def)
  note T = second_submission_runs_again
    [where this = "ApiManager_new None\<lparr>status_js := ''processing''\<rparr>" and now = "''t''"
       and j = "''{}''" and ctx = Background and ctx' = Background and m = "NewManager None 0"
       and clk = "\<lparr>now_start = 0, now_processed = 1, now_end = 2\<rparr>" and s = "''a''"
       and clk' = "\<lparr>now_start = 3, now_processed = 4, now_end = 5\<rparr>" and s' = "''bc''"]
  from T p b show ?thesis
    by (simp add: API_STATUS_COMPLETED_def NewManager_def Process_success)
qed

section \<open>Validation failure\<close>

text \<open>
  Claim C3 as stated does not hold of \<open>Manager.Process\<close>: for the \<open>nil\<close> payload the error
  returned has the message \<open>"validation failed: data cannot be nil"\<close>, which is not
  \<open>"validation failed"\<close> (and the manager has no field that stores a reason).
\<close>

theorem validation_reason_counterexample:
  "Process (NewManager None 0) Background \<lparr>now_start = 0, now_processed = 0, now_end = 0\<rparr> None =
     (\<lparr>config = DefaultConfig, status = StatusFailed, createdAt = 0, execCalls = 0\<rparr>,
      Inl (ValidationFailed DataNil)) \<and>
   Error (ValidationFailed DataNil) = ''validation failed: data cannot be nil'' \<and>
   Error (ValidationFailed DataNil) \<noteq> ''validation failed''"
  by (simp add: Process_nil NewManager_def)

text \<open>
  Claim C3, amended. For every payload that \<open>Validate\<close> rejects, \<open>Process\<close> leaves the
  status \<open>StatusFailed\<close> and returns no result and the error that wraps the validator's
  error behind the prefix \<open>"validation failed: "\<close>, whose message is
  \<open>"validation failed: data cannot be nil"\<close>; \<open>executeProcessing\<close> is not entered (the
  counter of its entries is unchanged).
\<close>

theorem validation_failure:
  assumes "Validate data = Some err"
  shows "Process m ctx clk data = (m\<lparr>status := StatusFailed\<rparr>, Inl (ValidationFailed err)) \<and>
         Error (ValidationFailed err) = ''validation failed: data cannot be nil'' \<and>
         prefix ''validation failed'' (Error (ValidationFailed err)) \<and>
         GetStatus (fst (Process m ctx clk data)) = StatusFailed \<and>
         execCalls (fst (Process m ctx clk data)) = execCalls m"
proof -
  from assms have d: "data = None" and e: "err = DataNil"
    by (auto simp: Validate_def split: if_splits)
  show ?thesis
    unfolding d e by (simp add: Process_nil GetStatus_def)
qed

theorem validation_failure_witness:
  "Validate None = Some DataNil \<and>
   Process (NewManager None 7) Background \<lparr>now_start = 7, now_processed = 8, now_end = 9\<rparr> None =
     (\<lparr>config = DefaultConfig, status = StatusFailed, createdAt = 7, execCalls = 0\<rparr>,
      Inl (ValidationFailed DataNil)) \<and>
   execCalls (fst (Process (NewManager None 7) Background
      \<lparr>now_start = 7, now_processed = 8, now_end = 9\<rparr> None)) = 0"
proof -
  have v: "Validate None = Some DataNil"
    by (simp add: Validate_def)
  from validation_failure [OF v, of "NewManager None 7" Background
      "\<lparr>now_start = 7, now_processed = 8, now_end = 9\<rparr>"] v
  show ?thesis by (simp add: NewManager_def)
qed

section \<open>Timeout\<close>

text \<open>
  Claim C4 as stated does not hold of \<open>Manager.Process\<close>: with \<open>config.Timeout\<close> set to
  50 ms, below the 100 ms of the simulated work, and a context that is never done,
  \<open>Process\<close> returns the result after the 100 ms and the status is \<open>StatusCompleted\<close>.
\<close>

theorem config_timeout_counterexample:
  "Timeout \<lparr>Enabled = True, Timeout = 50 * Millisecond, Retries = 3, LogLevel = ''INFO''\<rparr>
     < processing_delay \<and>
   Process
     (NewManager (Some \<lparr>Enabled = True, Timeout = 50 * Millisecond, Retries = 3,
                        LogLevel = ''INFO''\<rparr>) 0)
     Background
     \<lparr>now_start = 0, now_processed = processing_delay, now_end = processing_delay\<rparr>
     (Some ''resume.pdf'') =
   (\<lparr>config = \<lparr>Enabled = True, Timeout = 50 * Millisecond, Retries = 3, LogLevel = ''INFO''\<rparr>,
     status = StatusCompleted, createdAt = 0, execCalls = 1\<rparr>,
    Inr \<lparr>Status = ''success'', ProcessedAt = processing_delay, DataSize = 10,
         ProcessingTime = processing_delay,
         Message = ''Configuration processing completed successfully''\<rparr>)"
  by (simp add: Process_success NewManager_def Background_def processing_delay_def
      Millisecond_def)

text \<open>
  Claim C4, amended. The only deadline is that of the caller's context: when the context
  is done before the timer of the simulated work fires, \<open>Process\<close> leaves the status
  \<open>StatusFailed\<close> and returns no result and the error
  \<open>"processing failed: context deadline exceeded"\<close> (or
  \<open>"processing failed: context canceled"\<close>). \<open>config.Timeout\<close> is never read: \<open>Process\<close>
  does the same under every configuration.
\<close>

theorem context_deadline_failure:
  "(Done_first ctx \<longrightarrow>
      Process m ctx clk (Some s) =
        (m\<lparr>status := StatusFailed, execCalls := Suc (execCalls m)\<rparr>,
         Inl (ProcessingFailed (CtxErr (Err ctx)))) \<and>
      Error (ProcessingFailed (CtxErr (Err ctx))) =
        (if Err ctx = DeadlineExceeded then ''processing failed: context deadline exceeded''
         else ''processing failed: context canceled'')) \<and>
   Process (m\<lparr>config := c\<rparr>) ctx clk data =
     (fst (Process m ctx clk data)\<lparr>config := c\<rparr>, snd (Process m ctx clk data))"
proof -
  have "Error (ProcessingFailed (CtxErr (Err ctx))) =
        (if Err ctx = DeadlineExceeded then ''processing failed: context deadline exceeded''
         else ''processing failed: context canceled'')"
    by (cases "Err ctx") simp_all
  then show ?thesis
    using Process_config [where m = m and c = c and ctx = ctx and clk = clk and data = data]
    by (simp add: Process_done)
qed

theorem context_deadline_failure_witness:
  "Done_first \<lparr>Done_first = True, Done_on_send = True, Err = DeadlineExceeded\<rparr> \<and>
   Process (NewManager None 0)
     \<lparr>Done_first = True, Done_on_send = True, Err = DeadlineExceeded\<rparr>
     \<lparr>now_start = 0, now_processed = 0, now_end = 5\<rparr> (Some ''resume.pdf'') =
   (\<lparr>config = DefaultConfig, status = StatusFailed, createdAt = 0, execCalls = 1\<rparr>,
    Inl (ProcessingFailed (CtxErr DeadlineExceeded))) \<and>
   Error (ProcessingFailed (CtxErr DeadlineExceeded)) =
     ''processing failed: context deadline exceeded''"
proof -
  have d: "Done_first \<lparr>Done_first = True, Done_on_send = True, Err = DeadlineExceeded\<rparr>"
    by simp
  from context_deadline_failure
    [where ctx = "\<lparr>Done_first = True, Done_on_send = True, Err = DeadlineExceeded\<rparr>"
       and m = "NewManager None 0"
       and clk = "\<lparr>now_start = 0, now_processed = 0, now_end = 5\<rparr>"
       and s = "''resume.pdf''" and c = DefaultConfig and data = None] d
  show ?thesis by (simp add: NewManager_def)
qed

section \<open>Reset\<close>

text \<open>
  Claim C5 as stated does not hold: \<open>reset\<close> of the Java \<open>ConfigurationManager\<close> on a
  manager whose status is \<open>PROCESSING\<close> (as it is while \<open>processAsync\<close> runs \<open>process\<close> on
  another thread) changes it: the status becomes \<open>PENDING\<close>. The method returns nothing
  and throws nothing, so it cannot report a conflict.
\<close>

theorem reset_conflict_counterexample:
  "ConfigurationManager_reset
     \<lparr>config_cm = new_Config, status_cm = PROCESSING, createdAt_cm = ''2025-07-04T11:23:06''\<rparr> =
     \<lparr>config_cm = new_Config, status_cm = PENDING, createdAt_cm = ''2025-07-04T11:23:06''\<rparr> \<and>
   ConfigurationManager_reset
     \<lparr>config_cm = new_Config, status_cm = PROCESSING, createdAt_cm = ''2025-07-04T11:23:06''\<rparr> \<noteq>
     \<lparr>config_cm = new_Config, status_cm = PROCESSING, createdAt_cm = ''2025-07-04T11:23:06''\<rparr>"
  by (simp add: ConfigurationManager_reset_def)

text \<open>
  Claim C5, amended. \<open>Reset\<close> sets the status to pending from every status, processing
  included, changes nothing else, cannot fail, and is idempotent: a second \<open>Reset\<close>
  leaves the manager as the first one left it. This holds of the Go \<open>Manager.Reset\<close> and
  of the Java \<open>ConfigurationManager.reset\<close>.
\<close>

theorem reset_always_pending:
  "GetStatus (Reset m) = StatusPending \<and>
   Reset m = m\<lparr>status := StatusPending\<rparr> \<and>
   Reset (Reset m) = Reset m \<and>
   status_cm (ConfigurationManager_reset this) = PENDING \<and>
   ConfigurationManager_reset this = this\<lparr>status_cm := PENDING\<rparr> \<and>
   ConfigurationManager_reset (ConfigurationManager_reset this) =
     ConfigurationManager_reset this"
  by (simp add: Reset_def GetStatus_def ConfigurationManager_reset_def)

section \<open>Success\<close>

text \<open>
  Claim C6 as stated does not hold of \<open>Manager.Process\<close>: the worker's result is recorded
  nowhere. The struct has no field for a result (nor one for a failure reason), and the
  manager that a successful \<open>Process\<close> leaves is the same whatever the payload and the
  result were: here for \<open>"resume.pdf"\<close> and for \<open>"cv"\<close>, whose results differ. What
  \<open>Process\<close> returns is not the worker's result as it stands either, but that result with
  \<open>ProcessingTime\<close> overwritten.
\<close>

theorem result_recorded_counterexample:
  "executeProcessing (NewManager None 0\<lparr>status := StatusProcessing\<rparr>) Background
      \<lparr>now_start = 0, now_processed = 100000000, now_end = 100000000\<rparr> (Some ''resume.pdf'') =
     (\<lparr>config = DefaultConfig, status = StatusProcessing, createdAt = 0, execCalls = 1\<rparr>,
      Inr \<lparr>Status = ''success'', ProcessedAt = 100000000, DataSize = 10, ProcessingTime = 0,
           Message = ''Configuration processing completed successfully''\<rparr>) \<and>
   Process (NewManager None 0) Background
      \<lparr>now_start = 0, now_processed = 100000000, now_end = 100000000\<rparr> (Some ''resume.pdf'') =
     (\<lparr>config = DefaultConfig, status = StatusCompleted, createdAt = 0, execCalls = 1\<rparr>,
      Inr \<lparr>Status = ''success'', ProcessedAt = 100000000, DataSize = 10,
           ProcessingTime = 100000000,
           Message = ''Configuration processing completed successfully''\<rparr>) \<and>
   snd (Process (NewManager None 0) Background
      \<lparr>now_start = 0, now_processed = 100000000, now_end = 100000000\<rparr> (Some ''resume.pdf'')) \<noteq>
   snd (executeProcessing (NewManager None 0\<lparr>status := StatusProcessing\<rparr>) Background
      \<lparr>now_start = 0, now_processed = 100000000, now_end = 100000000\<rparr> (Some ''resume.pdf'')) \<and>
   Process (NewManager None 0) Background
      \<lparr>now_start = 0, now_processed = 100000000, now_end = 100000000\<rparr> (Some ''cv'') =
     (\<lparr>config = DefaultConfig, status = StatusCompleted, createdAt = 0, execCalls = 1\<rparr>,
      Inr \<lparr>Status = ''success'', ProcessedAt = 100000000, DataSize = 2,
           ProcessingTime = 100000000,
           Message = ''Configuration processing completed successfully''\<rparr>)"
  by (simp add: Process_success executeProcessing_def NewManager_def Background_def
      Sprintf_v_def)

text \<open>
  Claim C6, amended. For every payload that passes \<open>Validate\<close> and for which
  \<open>executeProcessing\<close> returns a result \<open>r\<close> and no error, \<open>Process\<close> returns \<open>r\<close> with its
  field \<open>ProcessingTime\<close> overwritten by the elapsed time, and no error, and leaves the
  status \<open>StatusCompleted\<close>. The manager stores neither the result nor a failure reason:
  after the call it is the manager as it was before, with the status \<open>StatusCompleted\<close>
  (and one more entry of \<open>executeProcessing\<close> counted), whatever the payload and the result.
\<close>

theorem Process_worker_success:
  assumes "Validate data = None"
    and "executeProcessing (m\<lparr>status := StatusProcessing\<rparr>) ctx clk data = (m', Inr r)"
  shows "Process m ctx clk data =
           (m'\<lparr>status := StatusCompleted\<rparr>,
            Inr (r\<lparr>ProcessingTime := now_end clk - now_start clk\<rparr>)) \<and>
         GetStatus (fst (Process m ctx clk data)) = StatusCompleted \<and>
         config (fst (Process m ctx clk data)) = config m \<and>
         fst (Process m ctx clk data) =
           m\<lparr>status := StatusCompleted, execCalls := Suc (execCalls m)\<rparr>"
proof -
  have eq: "Process m ctx clk data =
           (m'\<lparr>status := StatusCompleted\<rparr>,
            Inr (r\<lparr>ProcessingTime := now_end clk - now_start clk\<rparr>))"
    using assms by (simp add: Process_def)
  have m': "m' = m\<lparr>status := StatusProcessing, execCalls := Suc (execCalls m)\<rparr>"
    using assms(2) by (auto simp: executeProcessing_def Let_def split: if_splits)
  from eq m' show ?thesis by (simp add: GetStatus_def)
qed

theorem Process_worker_success_witness:
  "Validate (Some ''resume.pdf'') = None \<and>
   executeProcessing (NewManager None 0\<lparr>status := StatusProcessing\<rparr>) Background
      \<lparr>now_start = 0, now_processed = 100000000, now_end = 100000000\<rparr> (Some ''resume.pdf'') =
     (\<lparr>config = DefaultConfig, status = StatusProcessing, createdAt = 0, execCalls = 1\<rparr>,
      Inr \<lparr>Status = ''success'', ProcessedAt = 100000000, DataSize = 10, ProcessingTime = 0,
           Message = ''Configuration processing completed successfully''\<rparr>) \<and>
   Process (NewManager None 0) Background
      \<lparr>now_start = 0, now_processed = 100000000, now_end = 100000000\<rparr> (Some ''resume.pdf'') =
     (\<lparr>config = DefaultConfig, status = StatusCompleted, createdAt = 0, execCalls = 1\<rparr>,
      Inr \<lparr>Status = ''success'', ProcessedAt = 100000000, DataSize = 10,
           ProcessingTime = 100000000,
           Message = ''Configuration processing completed successfully''\<rparr>) \<and>
   fst (Process (NewManager None 0) Background
      \<lparr>now_start = 0, now_processed = 100000000, now_end = 100000000\<rparr> (Some ''resume.pdf'')) =
     NewManager None 0\<lparr>status := StatusCompleted, execCalls := 1\<rparr>"
proof -
  have v: "Validate (Some ''resume.pdf'') = None"
    by (simp add: Validate_def)
  have e: "executeProcessing (NewManager None 0\<lparr>status := StatusProcessing\<rparr>) Background
      \<lparr>now_start = 0, now_processed = 100000000, now_end = 100000000\<rparr> (Some ''resume.pdf'') =
     (\<lparr>config = DefaultConfig, status = StatusProcessing, createdAt = 0, execCalls = 1\<rparr>,
      Inr \<lparr>Status = ''success'', ProcessedAt = 100000000, DataSize = 10, ProcessingTime = 0,
           Message = ''Configuration processing completed successfully''\<rparr>)"
    by (simp add: executeProcessing_def NewManager_def Background_def Sprintf_v_def)
  show ?thesis
    using v e Process_worker_success [OF v e] by (simp add: NewManager_def)
qed

section \<open>Polling\<close>






text \<open>
  Claim C8 as stated does not hold of \<open>pollReview\<close>: when the first call of \<open>getReview\<close>
  throws the \<open>ApiError\<close> of a 404 and the second finds the review completed, the loop
  waits once and returns the review; the caller never sees the 404.
\<close>

theorem not_found_mid_poll_counterexample:
  "pollReview
     (\<lambda>reviewId k.
        if k = 0
        then Inl (Thrown_ApiError \<lparr>error_ae = ''Not Found'', detail_ae = None, status_ae = 404\<rparr>)
        else Inr \<lparr>review_id = reviewId, status_rr = ''completed'', review = None :: unit option,
                  error_message = None, created_at = ''2025-07-04''\<rparr>)
     ''r1'' None =
   (Inr \<lparr>review_id = ''r1'', status_rr = ''completed'', review = None,
         error_message = None, created_at = ''2025-07-04''\<rparr>, 1)"
proof -
  let ?g = "\<lambda>reviewId (k::int).
        if k = 0
        then Inl (Thrown_ApiError \<lparr>error_ae = ''Not Found'', detail_ae = None, status_ae = 404\<rparr>)
        else Inr \<lparr>review_id = reviewId, status_rr = ''completed'', review = None :: unit option,
                  error_message = None, created_at = ''2025-07-04''\<rparr>"
  have "pollReview_loop ?g ''r1'' None 60 0 = pollReview_loop ?g ''r1'' None 60 (0 + 1)"
    by (rule poll_retry) simp_all
  also have "\<dots> = (Inr \<lparr>review_id = ''r1'', status_rr = ''completed'', review = None,
         error_message = None, created_at = ''2025-07-04''\<rparr>, 1)"
    by (subst pollReview_loop.simps) (simp add: is_terminal_def)
  finally show ?thesis
    by (simp add: pollReview_def MAX_POLL_ATTEMPTS_def)
qed

text \<open>
  Claim C8, amended. What a call of \<open>getReview\<close> throws is swallowed, and the loop waits
  and polls again, as long as \<open>attempts < maxAttempts - 1\<close>; only on the last attempt
  (\<open>attempts \<ge> maxAttempts - 1\<close>) is it thrown to the caller, as it is and not as the
  timeout error.
\<close>

theorem get_error_retried_until_last_attempt:
  "(attempts < maxAttempts - 1 \<and> getReview reviewId attempts = Inl e \<longrightarrow>
      pollReview_loop getReview reviewId onProgress maxAttempts attempts =
      pollReview_loop getReview reviewId onProgress maxAttempts (attempts + 1)) \<and>
   (attempts < maxAttempts \<and> attempts \<ge> maxAttempts - 1 \<and>
    getReview reviewId attempts = Inl e \<longrightarrow>
      pollReview_loop getReview reviewId onProgress maxAttempts attempts = (Inl e, attempts))"
  using poll_retry [of attempts maxAttempts getReview reviewId e onProgress]
    poll_rethrow [of attempts maxAttempts getReview reviewId e onProgress]
  by blast

theorem get_error_retried_until_last_attempt_witness:
  "(0::int) < 3 - 1 \<and>
   pollReview_loop
     (\<lambda>reviewId k. Inl (Thrown_ApiError \<lparr>error_ae = ''Not Found'', detail_ae = None,
                                          status_ae = 404\<rparr>) :: js_thrown + unit ReviewResponse)
     ''r1'' None 3 0 =
   pollReview_loop
     (\<lambda>reviewId k. Inl (Thrown_ApiError \<lparr>error_ae = ''Not Found'', detail_ae = None,
                                          status_ae = 404\<rparr>))
     ''r1'' None 3 1 \<and>
   (2::int) < 3 \<and> (2::int) \<ge> 3 - 1 \<and>
   pollReview_loop
     (\<lambda>reviewId k. Inl (Thrown_ApiError \<lparr>error_ae = ''Not Found'', detail_ae = None,
                                          status_ae = 404\<rparr>) :: js_thrown + unit ReviewResponse)
     ''r1'' None 3 2 =
   (Inl (Thrown_ApiError \<lparr>error_ae = ''Not Found'', detail_ae = None, status_ae = 404\<rparr>), 2)"
proof -
  let ?g = "\<lambda>reviewId (k::int). Inl (Thrown_ApiError \<lparr>error_ae = ''Not Found'',
              detail_ae = None, status_ae = 404\<rparr>) :: js_thrown + unit ReviewResponse"
  note a = get_error_retried_until_last_attempt
    [where attempts = 0 and maxAttempts = 3 and getReview = ?g and reviewId = "''r1''"
       and onProgress = None
       and e = "Thrown_ApiError \<lparr>error_ae = ''Not Found'', detail_ae = None, status_ae = 404\<rparr>"]
  note b = get_error_retried_until_last_attempt
    [where attempts = 2 and maxAttempts = 3 and getReview = ?g and reviewId = "''r1''"
       and onProgress = None
       and e = "Thrown_ApiError \<lparr>error_ae = ''Not Found'', detail_ae = None, status_ae = 404\<rparr>"]
  from a b show ?thesis by simp
qed

section \<open>Asynchronous processing\<close>

text \<open>
  Claim C9 as stated does not hold of the Go \<open>ProcessAsync\<close>: for the \<open>nil\<close> payload
  \<open>Process\<close> returns no result and an error, while the channel yields a result (with
  \<open>Status: "error"\<close>) and carries no error; and when the goroutine takes \<open><-ctx.Done()\<close>
  the channel yields nothing although \<open>Process\<close> returned a result.
\<close>

theorem async_handle_counterexample:
  "Process (NewManager None 0) Background \<lparr>now_start = 0, now_processed = 0, now_end = 0\<rparr> None =
     (\<lparr>config = DefaultConfig, status = StatusFailed, createdAt = 0, execCalls = 0\<rparr>,
      Inl (ValidationFailed DataNil)) \<and>
   ProcessAsync (NewManager None 0) Background
       \<lparr>now_start = 0, now_processed = 0, now_end = 0\<rparr> None =
     (\<lparr>config = DefaultConfig, status = StatusFailed, createdAt = 0, execCalls = 0\<rparr>,
      Some \<lparr>Status = ''error'', ProcessedAt = 0, DataSize = 0, ProcessingTime = 0,
            Message = ''validation failed: data cannot be nil''\<rparr>) \<and>
   ProcessAsync (NewManager None 0)
       \<lparr>Done_first = False, Done_on_send = True, Err = Canceled\<rparr>
       \<lparr>now_start = 0, now_processed = 1, now_end = 2\<rparr> (Some ''resume.pdf'') =
     (\<lparr>config = DefaultConfig, status = StatusCompleted, createdAt = 0, execCalls = 1\<rparr>, None)"
  by (simp add: ProcessAsync_def Process_nil Process_success NewManager_def Background_def)

text \<open>
  Claim C9, amended. \<open>ProcessAsync\<close> leaves the manager as \<open>Process\<close> does. Unless its
  goroutine takes \<open><-ctx.Done()\<close> at the send, the channel yields the result of \<open>Process\<close>
  when \<open>Process\<close> returns one, and when \<open>Process\<close> returns an error \<open>err\<close> it yields a
  \<open>Result\<close> with \<open>Status: "error"\<close> and \<open>Message: err.Error()\<close> in place of the error; when
  the goroutine takes \<open><-ctx.Done()\<close> the channel is closed with nothing sent. The future
  of the C++ \<open>processAsync\<close> gives exactly what \<open>process\<close> gives, value or exception.
\<close>

theorem async_handle:
  "fst (ProcessAsync m ctx clk data) = fst (Process m ctx clk data) \<and>
   (\<not> Done_on_send ctx \<and> snd (Process m ctx clk data) = Inr result \<longrightarrow>
      snd (ProcessAsync m ctx clk data) = Some result) \<and>
   (\<not> Done_on_send ctx \<and> snd (Process m ctx clk data) = Inl err \<longrightarrow>
      snd (ProcessAsync m ctx clk data) =
        Some \<lparr>Status = ''error'', ProcessedAt = 0, DataSize = 0, ProcessingTime = 0,
              Message = Error err\<rparr>) \<and>
   (Done_on_send ctx \<longrightarrow> snd (ProcessAsync m ctx clk data) = None) \<and>
   ConfigurationManager_cpp_processAsync this ts d = ConfigurationManager_cpp_process this ts d"
  by (cases "Process m ctx clk data")
    (simp add: ProcessAsync_def ConfigurationManager_cpp_processAsync_def)

theorem async_handle_witness:
  "\<not> Done_on_send Background \<and>
   snd (Process (NewManager None 0) Background
          \<lparr>now_start = 0, now_processed = 1, now_end = 2\<rparr> (Some ''cv'')) =
     Inr \<lparr>Status = ''success'', ProcessedAt = 1, DataSize = 2, ProcessingTime = 2,
          Message = ''Configuration processing completed successfully''\<rparr> \<and>
   snd (ProcessAsync (NewManager None 0) Background
          \<lparr>now_start = 0, now_processed = 1, now_end = 2\<rparr> (Some ''cv'')) =
     Some \<lparr>Status = ''success'', ProcessedAt = 1, DataSize = 2, ProcessingTime = 2,
           Message = ''Configuration processing completed successfully''\<rparr> \<and>
   snd (Process (NewManager None 0) Background
          \<lparr>now_start = 0, now_processed = 1, now_end = 2\<rparr> None) =
     Inl (ValidationFailed DataNil) \<and>
   snd (ProcessAsync (NewManager None 0) Background
          \<lparr>now_start = 0, now_processed = 1, now_end = 2\<rparr> None) =
     Some \<lparr>Status = ''error'', ProcessedAt = 0, DataSize = 0, ProcessingTime = 0,
           Message = ''validation failed: data cannot be nil''\<rparr> \<and>
   Done_on_send \<lparr>Done_first = True, Done_on_send = True, Err = Canceled\<rparr> \<and>
   snd (ProcessAsync (NewManager None 0)
          \<lparr>Done_first = True, Done_on_send = True, Err = Canceled\<rparr>
          \<lparr>now_start = 0, now_processed = 1, now_end = 2\<rparr> (Some ''cv'')) = None"
proof -
  let ?clk = "\<lparr>now_start = 0, now_processed = 1, now_end = 2\<rparr>"
  let ?r = "\<lparr>Status = ''success'', ProcessedAt = 1, DataSize = 2, ProcessingTime = 2,
          Message = ''Configuration processing completed successfully''\<rparr>"
  have b: "\<not> Done_on_send Background"
    by (simp add: Background_def)
  have ok: "snd (Process (NewManager None 0) Background ?clk (Some ''cv'')) = Inr ?r"
    by (simp add: Process_success Background_def)
  have bad: "snd (Process (NewManager None 0) Background ?clk None) =
             Inl (ValidationFailed DataNil)"
    by (simp add: Process_nil)
  have d: "Done_on_send \<lparr>Done_first = True, Done_on_send = True, Err = Canceled\<rparr>"
    by simp
  note s1 = async_handle [where m = "NewManager None 0" and ctx = Background and clk = ?clk
      and data = "Some ''cv''" and result = ?r, THEN conjunct2, THEN conjunct1]
  note s2 = async_handle [where m = "NewManager None 0" and ctx = Background and clk = ?clk
      and data = None and err = "ValidationFailed DataNil",
      THEN conjunct2, THEN conjunct2, THEN conjunct1]
  note s3 = async_handle [where m = "NewManager None 0"
      and ctx = "\<lparr>Done_first = True, Done_on_send = True, Err = Canceled\<rparr>" and clk = ?clk
      and data = "Some ''cv''", THEN conjunct2, THEN conjunct2, THEN conjunct2, THEN conjunct1]
  from s1 s2 s3 b ok bad d show ?thesis by simp
qed

section \<open>Construction\<close>

text \<open>
  Claim C10. \<open>NewManager(nil)\<close> returns a manager (it has no error result) whose
  configuration is \<open>DefaultConfig()\<close>, that is \<open>Enabled\<close> true, \<open>Timeout\<close> 30 seconds,
  \<open>Retries\<close> 3 and \<open>LogLevel\<close> \<open>"INFO"\<close>, and whose status is \<open>StatusPending\<close>. The Java
  constructor with a \<open>null\<close> configuration throws nothing and gives a manager with the
  defaults of \<open>Config\<close> (enabled, timeout 30, retries 3, log level \<open>"INFO"\<close>) and status
  \<open>PENDING\<close>.
\<close>

theorem construct_nil_config:
  "NewManager None now =
     \<lparr>config = \<lparr>Enabled = True, Timeout = 30 * Second, Retries = 3, LogLevel = ''INFO''\<rparr>,
      status = StatusPending, createdAt = now, execCalls = 0\<rparr> \<and>
   config (NewManager None now) = DefaultConfig \<and>
   Second = 1000000000 \<and>
   ConfigurationManager_new jdk None now' =
     Inr \<lparr>config_cm = \<lparr>enabled = True, timeout = 30, retries = 3, logLevel = ''INFO''\<rparr>,
          status_cm = PENDING, createdAt_cm = now'\<rparr>"
  by (simp add: NewManager_def DefaultConfig_def Second_def Millisecond_def
      ConfigurationManager_new_def new_Config_def Level_parse_def level_names_def)

end
